theory Spec2Isabelle
  imports Main "HOL-Library.Char_ord" "HOL-Library.List_Lexorder" "HOL-Library.Sublist"
begin

section \<open>Values, exceptions and the outside world\<close>

text \<open>
  The program is one Python module, \<^verbatim>\<open>assistant.py\<close>. Its functions talk to three outside
  parties: the scraping proxy (through \<^verbatim>\<open>requests\<close>), the remote assistant service (through
  the \<^verbatim>\<open>client\<close> object) and the user interface (\<^verbatim>\<open>st.error\<close>, \<^verbatim>\<open>st.success\<close>). The
  model threads a state through every function: the state of the outside parties, of an
  arbitrary type \<open>'w\<close>, and the list of the outside calls made so far, oldest first.

  Python values that cross the JSON boundary (tool arguments, tool results) are values of
  \<open>pyvalue\<close>; \<open>PNone\<close> is Python's \<^verbatim>\<open>None\<close>. A float is kept as its literal.
\<close>

datatype pyvalue =
    PNone
  | PBool bool
  | PInt int
  | PFloat string
  | PStr string
  | PList "pyvalue list"
  | PDict "(string \<times> pyvalue) list"

text \<open>
  The exceptions the module's steps raise. All of them are subclasses of Python's
  \<^verbatim>\<open>Exception\<close>. \<open>Timeout\<close>, \<open>TooManyRedirects\<close> and \<open>RequestException\<close> are the classes of
  \<^verbatim>\<open>requests.exceptions\<close> that \<^verbatim>\<open>scrape_content\<close> names (\<open>RequestException\<close> stands for every
  other member of that family); \<open>OtherException\<close> carries a class name and a message, for
  instance an error of the assistant service.
\<close>

datatype exn =
    Timeout string
  | TooManyRedirects string
  | RequestException string
  | ValueError string
  | JSONDecodeError string
  | TypeError string
  | AttributeError string
  | IndexError string
  | OtherException string string

text \<open>\<^verbatim>\<open>str(e)\<close>: the message of an exception.\<close>

fun exn_str :: "exn \<Rightarrow> string" where
  "exn_str (Timeout m) = m"
| "exn_str (TooManyRedirects m) = m"
| "exn_str (RequestException m) = m"
| "exn_str (ValueError m) = m"
| "exn_str (JSONDecodeError m) = m"
| "exn_str (TypeError m) = m"
| "exn_str (AttributeError m) = m"
| "exn_str (IndexError m) = m"
| "exn_str (OtherException c m) = m"

text \<open>
  The one exception of the model that is not a subclass of \<^verbatim>\<open>Exception\<close>:
  \<^verbatim>\<open>asyncio.CancelledError\<close>, which derives from \<^verbatim>\<open>BaseException\<close> and is raised at an
  \<^verbatim>\<open>await\<close> when the task is cancelled. A clause \<^verbatim>\<open>except Exception\<close> does not catch it.
  The synchronous functions of the module raise values of \<open>exn\<close> only; the coroutine
  \<^verbatim>\<open>get_agent_response\<close> raises values of \<open>raised\<close>.
\<close>

datatype base_exn = CancelledError

datatype raised = Exc exn | Base base_exn

record response =
  status_code :: int
  response_text :: string

text \<open>A tool call request of a run: \<^verbatim>\<open>call.id\<close>, \<^verbatim>\<open>call.function.name\<close>,
  \<^verbatim>\<open>call.function.arguments\<close>.\<close>

record tool_call =
  call_id :: string
  function_name :: string
  function_arguments :: string

text \<open>One entry of \<^verbatim>\<open>tool_outputs\<close>.\<close>

record tool_output =
  tool_call_id :: string
  output_str :: string

text \<open>A run object: \<^verbatim>\<open>run.id\<close>, \<^verbatim>\<open>run.status\<close> and
  \<^verbatim>\<open>run.required_action.submit_tool_outputs.tool_calls\<close>; \<open>required_action\<close> is \<open>None\<close>
  when the run carries no required action.\<close>

record run =
  run_id :: string
  status :: string
  required_action :: "tool_call list option"

text \<open>An annotation of a text block: \<^verbatim>\<open>annotation.type\<close> is \<^verbatim>\<open>"file_path"\<close> (with
  \<^verbatim>\<open>annotation.text\<close> and \<^verbatim>\<open>annotation.file_path.file_id\<close>) or something else.\<close>

datatype annotation =
    FilePath string string
  | OtherAnnotation string

text \<open>A content block of a message: \<^verbatim>\<open>"text"\<close> (value, annotations),
  \<^verbatim>\<open>"image_file"\<close> (file id), or another type.\<close>

datatype content_block =
    TextBlock string "annotation list"
  | ImageFileBlock string
  | OtherBlock string

record message =
  role :: string
  content :: "content_block list"

text \<open>The parsed document: a tag with its name, attributes and children, a string of
  the page, or a comment.\<close>

datatype node =
    Tag string "(string \<times> string) list" "node list"
  | NavigableString string
  | Comment string

text \<open>The outside calls, as they are recorded in the state.\<close>

datatype event =
    StError string
  | StSuccess string
  | RequestsGet string "(string \<times> pyvalue) list"
  | MessagesCreate string string string
  | RunsCreate string string
  | RunsRetrieve string string
  | SubmitToolOutputs string string "tool_output list"
  | MessagesList string nat
  | FilesContent string
  | Sleep nat

record 'w state =
  world :: 'w
  trace :: "event list"

text \<open>
  What the module takes from outside itself: the session's thread identifier and the
  proxy key, the library functions (\<^verbatim>\<open>str\<close> on a value that is not a string,
  \<^verbatim>\<open>traceback.format_exc\<close>, \<^verbatim>\<open>json.loads\<close>, \<^verbatim>\<open>json.dumps\<close>, the HTML parser behind
  \<^verbatim>\<open>BeautifulSoup(text, 'html.parser')\<close>), the remote calls, each a function of the
  outside state that returns a value or raises, and \<^verbatim>\<open>await asyncio.sleep(n)\<close>, which
  returns or is cancelled.
\<close>

record 'w env =
  thread_id :: string
  proxy_api_key :: string
  py_str :: "pyvalue \<Rightarrow> string"
  format_exc :: "exn \<Rightarrow> string"
  json_loads :: "string \<Rightarrow> exn + pyvalue"
  json_dumps :: "pyvalue \<Rightarrow> string"
  html_parser :: "string \<Rightarrow> node"
  requests_get :: "string \<Rightarrow> (string \<times> pyvalue) list \<Rightarrow> 'w \<Rightarrow> (exn + response) \<times> 'w"
  messages_create :: "string \<Rightarrow> string \<Rightarrow> string \<Rightarrow> 'w \<Rightarrow> (exn + unit) \<times> 'w"
  runs_create :: "string \<Rightarrow> string \<Rightarrow> 'w \<Rightarrow> (exn + run) \<times> 'w"
  runs_retrieve :: "string \<Rightarrow> string \<Rightarrow> 'w \<Rightarrow> (exn + run) \<times> 'w"
  submit_tool_outputs :: "string \<Rightarrow> string \<Rightarrow> tool_output list \<Rightarrow> 'w \<Rightarrow> (exn + run) \<times> 'w"
  messages_list :: "string \<Rightarrow> nat \<Rightarrow> 'w \<Rightarrow> (exn + message list) \<times> 'w"
  files_content :: "string \<Rightarrow> 'w \<Rightarrow> (exn + string) \<times> 'w"
  asyncio_sleep :: "nat \<Rightarrow> 'w \<Rightarrow> (base_exn + unit) \<times> 'w"

text \<open>An outside call records itself and acts on the outside state.\<close>

definition outside :: "event \<Rightarrow> ('w \<Rightarrow> 'a \<times> 'w) \<Rightarrow> 'w state \<Rightarrow> 'a \<times> 'w state" where
  "outside ev f s =
     (case f (world s) of (r, w) \<Rightarrow> (r, s\<lparr>world := w, trace := trace s @ [ev]\<rparr>))"

definition st_error :: "string \<Rightarrow> 'w state \<Rightarrow> 'w state" where
  "st_error msg s = s\<lparr>trace := trace s @ [StError msg]\<rparr>"

definition st_success :: "string \<Rightarrow> 'w state \<Rightarrow> 'w state" where
  "st_success msg s = s\<lparr>trace := trace s @ [StSuccess msg]\<rparr>"

text \<open>A value inside an f-string: a string as it is, anything else through \<^verbatim>\<open>str\<close>.\<close>

definition fstr :: "'w env \<Rightarrow> pyvalue \<Rightarrow> string" where
  "fstr env v = (case v of PStr s \<Rightarrow> s | _ \<Rightarrow> py_str env v)"

text \<open>A name between single quotes, as Python's messages show it.\<close>

definition quoted :: "string \<Rightarrow> string" where
  "quoted s = [CHR 0x27] @ s @ [CHR 0x27]"

section \<open>The scraper client\<close>

text \<open>
  \<^verbatim>\<open>requests\<close> and \<^verbatim>\<open>BeautifulSoup\<close> are libraries. The request and the parser are
  fields of the environment; the operations that \<^verbatim>\<open>scrape_content\<close> calls on the parsed
  document (\<^verbatim>\<open>get_text\<close>, \<^verbatim>\<open>find_all\<close>, \<^verbatim>\<open>get\<close>) and on strings (\<^verbatim>\<open>strip\<close>, \<^verbatim>\<open>join\<close>,
  \<^verbatim>\<open>sorted\<close>) are written out on the document tree, as the libraries document them.
  Strings are lists of bytes; the byte order of UTF-8 text is the order of its code points,
  which is the order \<^verbatim>\<open>sorted\<close> uses.
\<close>

definition PROXY_URL :: string where
  "PROXY_URL = ''https://proxy.scrapeops.io/v1/''"

definition newline :: string where
  "newline = [CHR 0x0A]"

text \<open>
  The white space that \<^verbatim>\<open>str.strip()\<close> removes, in UTF-8. One byte: tab, line feed,
  vertical tab, form feed, carriage return, the separators \<^verbatim>\<open>U+001C\<close> to \<^verbatim>\<open>U+001F\<close>, space.
  Two bytes: \<^verbatim>\<open>U+0085\<close> and \<^verbatim>\<open>U+00A0\<close>. Three bytes: \<^verbatim>\<open>U+1680\<close>, \<^verbatim>\<open>U+2000\<close> to
  \<^verbatim>\<open>U+200A\<close>, \<^verbatim>\<open>U+2028\<close>, \<^verbatim>\<open>U+2029\<close>, \<^verbatim>\<open>U+202F\<close>, \<^verbatim>\<open>U+205F\<close> and \<^verbatim>\<open>U+3000\<close>.
\<close>

definition isspace1 :: "char \<Rightarrow> bool" where
  "isspace1 a = (a \<in> set [CHR 0x09, CHR 0x0A, CHR 0x0B, CHR 0x0C, CHR 0x0D,
                           CHR 0x1C, CHR 0x1D, CHR 0x1E, CHR 0x1F, CHR 0x20])"

definition isspace2 :: "char \<Rightarrow> char \<Rightarrow> bool" where
  "isspace2 a b = (a = CHR 0xC2 \<and> b \<in> set [CHR 0x85, CHR 0xA0])"

definition isspace3 :: "char \<Rightarrow> char \<Rightarrow> char \<Rightarrow> bool" where
  "isspace3 a b c =
     ((a = CHR 0xE1 \<and> b = CHR 0x9A \<and> c = CHR 0x80)
      \<or> (a = CHR 0xE2 \<and> b = CHR 0x80
          \<and> c \<in> set [CHR 0x80, CHR 0x81, CHR 0x82, CHR 0x83, CHR 0x84, CHR 0x85, CHR 0x86,
                        CHR 0x87, CHR 0x88, CHR 0x89, CHR 0x8A, CHR 0xA8, CHR 0xA9, CHR 0xAF])
      \<or> (a = CHR 0xE2 \<and> b = CHR 0x81 \<and> c = CHR 0x9F)
      \<or> (a = CHR 0xE3 \<and> b = CHR 0x80 \<and> c = CHR 0x80))"

text \<open>\<^verbatim>\<open>str.lstrip()\<close>: the white space at the front is removed, character by character.\<close>

fun lstrip :: "string \<Rightarrow> string" where
  "lstrip [] = []"
| "lstrip [a] = (if isspace1 a then [] else [a])"
| "lstrip [a, b] =
     (if isspace1 a then lstrip [b] else if isspace2 a b then [] else [a, b])"
| "lstrip (a # b # c # s) =
     (if isspace1 a then lstrip (b # c # s)
      else if isspace2 a b then lstrip (c # s)
      else if isspace3 a b c then lstrip s
      else a # b # c # s)"

text \<open>The same on a reversed string, whose characters have their bytes in reverse.\<close>

fun lstrip_reversed :: "string \<Rightarrow> string" where
  "lstrip_reversed [] = []"
| "lstrip_reversed [c] = (if isspace1 c then [] else [c])"
| "lstrip_reversed [c, b] =
     (if isspace1 c then lstrip_reversed [b] else if isspace2 b c then [] else [c, b])"
| "lstrip_reversed (c # b # a # s) =
     (if isspace1 c then lstrip_reversed (b # a # s)
      else if isspace2 b c then lstrip_reversed (a # s)
      else if isspace3 a b c then lstrip_reversed s
      else c # b # a # s)"

definition strip :: "string \<Rightarrow> string" where
  "strip s = rev (lstrip_reversed (rev (lstrip s)))"

text \<open>\<^verbatim>\<open>separator.join(parts)\<close>.\<close>

fun join :: "string \<Rightarrow> string list \<Rightarrow> string" where
  "join sep [] = []"
| "join sep [x] = x"
| "join sep (x # y # ys) = x @ sep @ join sep (y # ys)"

text \<open>
  The tags whose strings the parser builds in a class of their own (\<^verbatim>\<open>Script\<close>,
  \<^verbatim>\<open>Stylesheet\<close>, \<^verbatim>\<open>TemplateString\<close>, \<^verbatim>\<open>RubyTextString\<close>, \<^verbatim>\<open>RubyParenthesisString\<close>):
  every string below such a tag has that class, and \<^verbatim>\<open>get_text\<close> on the document leaves
  it out.
\<close>

definition string_containers :: "string list" where
  "string_containers = [''script'', ''style'', ''template'', ''rt'', ''rp'']"

text \<open>The strings of a document that \<^verbatim>\<open>get_text\<close> reads, in document order; comments are
  not among them.\<close>

fun all_strings :: "node \<Rightarrow> string list" where
  "all_strings (Tag name attrs children) =
     (if name \<in> set string_containers then [] else concat (map all_strings children))"
| "all_strings (NavigableString s) = [s]"
| "all_strings (Comment s) = []"

text \<open>\<^verbatim>\<open>soup.get_text(separator=sep, strip=True)\<close>: every string stripped, the empty ones
  left out, joined by the separator.\<close>

definition get_text :: "node \<Rightarrow> string \<Rightarrow> string" where
  "get_text soup sep = join sep (filter (\<lambda>t. t \<noteq> []) (map strip (all_strings soup)))"

text \<open>Everything below a node, in document order.\<close>

fun descendants :: "node \<Rightarrow> node list" where
  "descendants (Tag name attrs children) = concat (map (\<lambda>c. c # descendants c) children)"
| "descendants (NavigableString s) = []"
| "descendants (Comment s) = []"

text \<open>\<^verbatim>\<open>tag.get(key)\<close>: the attribute's value, or \<^verbatim>\<open>None\<close>.\<close>

fun get_attr :: "node \<Rightarrow> string \<Rightarrow> string option" where
  "get_attr (Tag name attrs children) key = map_of attrs key"
| "get_attr (NavigableString s) key = None"
| "get_attr (Comment s) key = None"

text \<open>\<^verbatim>\<open>soup.find_all(name, key=True)\<close>: the tags of that name below the node that carry
  the attribute, whatever its value.\<close>

fun is_tag_with :: "string \<Rightarrow> string \<Rightarrow> node \<Rightarrow> bool" where
  "is_tag_with name key (Tag n attrs children) = (n = name \<and> map_of attrs key \<noteq> None)"
| "is_tag_with name key (NavigableString s) = False"
| "is_tag_with name key (Comment s) = False"

definition find_all :: "node \<Rightarrow> string \<Rightarrow> string \<Rightarrow> node list" where
  "find_all soup name key = filter (is_tag_with name key) (descendants soup)"

text \<open>
  \<^verbatim>\<open>sorted({a.get('href') for a in soup.find_all('a', href=True) if a.get('href')})\<close>.
  The condition keeps a value that is neither \<^verbatim>\<open>None\<close> nor the empty string; the set
  comprehension removes duplicates; \<^verbatim>\<open>sorted\<close> orders strings lexicographically.
\<close>

definition truthy_href :: "node \<Rightarrow> bool" where
  "truthy_href a = (case get_attr a ''href'' of None \<Rightarrow> False | Some h \<Rightarrow> h \<noteq> [])"

definition extract_links :: "node \<Rightarrow> string list" where
  "extract_links soup =
     sort (remdups (map (\<lambda>a. the (get_attr a ''href''))
                        (filter truthy_href (find_all soup ''a'' ''href''))))"

text \<open>The \<^verbatim>\<open>params\<close> dictionary of the proxy request.\<close>

definition proxy_params :: "'w env \<Rightarrow> pyvalue \<Rightarrow> (string \<times> pyvalue) list" where
  "proxy_params env url =
     [(''api_key'', PStr (proxy_api_key env)), (''url'', url),
      (''render_js'', PStr ''true''), (''residential'', PStr ''true'')]"

definition scrape_content :: "'w env \<Rightarrow> pyvalue \<Rightarrow> 'w state \<Rightarrow> (exn + pyvalue) \<times> 'w state" where
  "scrape_content env url s =
     (let params = proxy_params env url
      in case outside (RequestsGet PROXY_URL params) (requests_get env PROXY_URL params) s of
           (Inr response, s1) \<Rightarrow>
             if status_code response = 200 then
               (let soup = html_parser env (response_text response);
                    content = get_text soup newline;
                    links = extract_links soup
                in (Inr (PDict [(''content'', PStr content),
                                (''links'', PList (map PStr links))]),
                    st_success (''Successfully scraped content from '' @ fstr env url) s1))
             else
               (Inr PNone,
                st_error (''Failed to fetch the page: '' @ fstr env url @ '', status code: ''
                          @ fstr env (PInt (status_code response))) s1)
         | (Inl (Timeout m), s1) \<Rightarrow>
             (Inr PNone,
              st_error (''Request timed out while trying to scrape '' @ fstr env url @ ''.'') s1)
         | (Inl (TooManyRedirects m), s1) \<Rightarrow>
             (Inr PNone,
              st_error (''Too many redirects while trying to scrape '' @ fstr env url @ ''.'') s1)
         | (Inl (RequestException m), s1) \<Rightarrow>
             (Inr PNone,
              st_error (''An error occurred while scraping '' @ fstr env url @ '': '' @ m) s1)
         | (Inl e, s1) \<Rightarrow> (Inl e, s1))"

section \<open>The tool registry and dispatch\<close>

text \<open>A registered callable takes the keyword arguments of the call.\<close>

type_synonym 'w tool = "(string \<times> pyvalue) list \<Rightarrow> 'w state \<Rightarrow> (exn + pyvalue) \<times> 'w state"

text \<open>
  \<^verbatim>\<open>scrape_content(**kwargs)\<close>: the function has the one parameter \<^verbatim>\<open>url\<close>. A keyword
  other than \<^verbatim>\<open>url\<close>, or no \<^verbatim>\<open>url\<close>, is a \<^verbatim>\<open>TypeError\<close> of the call.
\<close>

definition scrape_content_kw :: "'w env \<Rightarrow> 'w tool" where
  "scrape_content_kw env kwargs s =
     (case filter (\<lambda>k. k \<noteq> ''url'') (map fst kwargs) of
        k # ks \<Rightarrow>
          (Inl (TypeError (''scrape_content() got an unexpected keyword argument '' @ quoted k)), s)
      | [] \<Rightarrow>
          (case map_of kwargs ''url'' of
             None \<Rightarrow>
               (Inl (TypeError (''scrape_content() missing 1 required positional argument: '' @ quoted ''url'')), s)
           | Some url \<Rightarrow> scrape_content env url s))"

text \<open>\<^verbatim>\<open>available_functions.get(name)\<close>: the registry has the one entry.\<close>

definition available_functions :: "'w env \<Rightarrow> string \<Rightarrow> 'w tool option" where
  "available_functions env name =
     (if name = ''scrape_content'' then Some (scrape_content_kw env) else None)"

definition safe_tool_call ::
  "'w tool \<Rightarrow> string \<Rightarrow> (string \<times> pyvalue) list \<Rightarrow> 'w state \<Rightarrow> pyvalue \<times> 'w state" where
  "safe_tool_call func tool_name kwargs s =
     (case func kwargs s of
        (Inr result, s1) \<Rightarrow>
          (if result \<noteq> PNone then result
           else PStr (''No content returned from '' @ tool_name), s1)
      | (Inl e, s1) \<Rightarrow>
          (PStr (''Error occurred in '' @ tool_name @ '': '' @ exn_str e),
           st_error (''Error in '' @ tool_name @ '': '' @ exn_str e) s1))"

text \<open>
  The call \<^verbatim>\<open>safe_tool_call(function, function_name, **arguments)\<close> unpacks the parsed
  arguments at the call site: a value that is not a dictionary, or a dictionary with a key
  that names one of the two positional parameters, is a \<^verbatim>\<open>TypeError\<close> raised in
  \<^verbatim>\<open>handle_tool_outputs\<close>, before \<^verbatim>\<open>safe_tool_call\<close> is entered. The keys are bound in
  the order of the dictionary, so the first key that collides is the one reported. The
  messages are worded as CPython 3.11 words them for a module run as a script.
\<close>

fun type_name :: "pyvalue \<Rightarrow> string" where
  "type_name PNone = ''NoneType''"
| "type_name (PBool b) = ''bool''"
| "type_name (PInt i) = ''int''"
| "type_name (PFloat f) = ''float''"
| "type_name (PStr s) = ''str''"
| "type_name (PList xs) = ''list''"
| "type_name (PDict kvs) = ''dict''"

definition unpack_kwargs :: "pyvalue \<Rightarrow> exn + (string \<times> pyvalue) list" where
  "unpack_kwargs arguments =
     (case arguments of
        PDict kvs \<Rightarrow>
          (case filter (\<lambda>k. k \<in> set [''func'', ''tool_name'']) (map fst kvs) of
             k # ks \<Rightarrow>
               Inl (TypeError (''safe_tool_call() got multiple values for argument '' @ quoted k))
           | [] \<Rightarrow> Inr kvs)
      | _ \<Rightarrow>
          Inl (TypeError (''__main__.safe_tool_call() argument after ** must be a mapping, not ''
                          @ type_name arguments)))"

text \<open>The \<^verbatim>\<open>for\<close> loop of \<^verbatim>\<open>handle_tool_outputs\<close>, with \<^verbatim>\<open>tool_outputs\<close> as accumulator.
  The first exception ends it.\<close>

fun resolve_tool_calls ::
  "'w env \<Rightarrow> tool_call list \<Rightarrow> tool_output list \<Rightarrow> 'w state \<Rightarrow> (exn + tool_output list) \<times> 'w state" where
  "resolve_tool_calls env [] tool_outputs s = (Inr tool_outputs, s)"
| "resolve_tool_calls env (call # calls) tool_outputs s =
     (case available_functions env (function_name call) of
        None \<Rightarrow>
          (Inl (ValueError (''Function '' @ function_name call @ '' not found in available_functions.'')), s)
      | Some func \<Rightarrow>
          (case json_loads env (function_arguments call) of
             Inl e \<Rightarrow> (Inl e, s)
           | Inr arguments \<Rightarrow>
               (case unpack_kwargs arguments of
                  Inl e \<Rightarrow> (Inl e, s)
                | Inr kwargs \<Rightarrow>
                    (case safe_tool_call func (function_name call) kwargs s of
                       (out, s1) \<Rightarrow>
                         resolve_tool_calls env calls
                           (tool_outputs @ [\<lparr>tool_call_id = call_id call,
                                             output_str = json_dumps env out\<rparr>]) s1))))"

text \<open>The body of the \<^verbatim>\<open>try\<close> block of \<^verbatim>\<open>handle_tool_outputs\<close>.\<close>

definition handle_tool_outputs_body :: "'w env \<Rightarrow> run \<Rightarrow> 'w state \<Rightarrow> (exn + run) \<times> 'w state" where
  "handle_tool_outputs_body env run s =
     (case required_action run of
        None \<Rightarrow>
          (Inl (AttributeError (quoted ''NoneType'' @ '' object has no attribute '' @ quoted ''submit_tool_outputs'')), s)
      | Some calls \<Rightarrow>
          (case resolve_tool_calls env calls [] s of
             (Inl e, s1) \<Rightarrow> (Inl e, s1)
           | (Inr tool_outputs, s1) \<Rightarrow>
               outside (SubmitToolOutputs (thread_id env) (run_id run) tool_outputs)
                 (submit_tool_outputs env (thread_id env) (run_id run) tool_outputs) s1))"

text \<open>\<^verbatim>\<open>handle_tool_outputs\<close>: the submitted run, or \<^verbatim>\<open>None\<close> after an exception, which
  is displayed with its traceback.\<close>

definition handle_tool_outputs :: "'w env \<Rightarrow> run \<Rightarrow> 'w state \<Rightarrow> run option \<times> 'w state" where
  "handle_tool_outputs env run s =
     (case handle_tool_outputs_body env run s of
        (Inr r, s1) \<Rightarrow> (Some r, s1)
      | (Inl e, s1) \<Rightarrow>
          (None, st_error (format_exc env e)
                   (st_error (''Error in handle_tool_outputs: '' @ exn_str e) s1)))"

section \<open>The conversation loop\<close>

text \<open>\<^verbatim>\<open>await asyncio.sleep(n)\<close>: an outside call that returns, or raises the
  cancellation of the task.\<close>

definition sleep :: "'w env \<Rightarrow> nat \<Rightarrow> 'w state \<Rightarrow> (base_exn + unit) \<times> 'w state" where
  "sleep env n s = outside (Sleep n) (asyncio_sleep env n) s"

text \<open>
  The \<^verbatim>\<open>while\<close> loop of \<^verbatim>\<open>get_agent_response\<close>. Nothing in the source bounds the number
  of polls, so the model counts them down from \<open>fuel\<close> and returns \<open>None\<close> when a further
  poll is due and none is left. The variable \<^verbatim>\<open>run\<close> is \<open>None\<close> after
  \<^verbatim>\<open>handle_tool_outputs\<close> returned \<^verbatim>\<open>None\<close>; reading its status then raises.
\<close>

fun poll :: "'w env \<Rightarrow> nat \<Rightarrow> run option \<Rightarrow> 'w state \<Rightarrow> ((raised + unit) \<times> 'w state) option" where
  "poll env fuel None s =
     Some (Inl (Exc (AttributeError (quoted ''NoneType'' @ '' object has no attribute '' @ quoted ''status''))), s)"
| "poll env 0 (Some r) s =
     (if status r \<in> set [''queued'', ''in_progress''] then None else Some (Inr (), s))"
| "poll env (Suc n) (Some r) s =
     (if status r \<in> set [''queued'', ''in_progress''] then
        (case outside (RunsRetrieve (thread_id env) (run_id r))
                (runs_retrieve env (thread_id env) (run_id r)) s of
           (Inl e, s1) \<Rightarrow> Some (Inl (Exc e), s1)
         | (Inr r1, s1) \<Rightarrow>
             (case (if status r1 = ''requires_action'' then handle_tool_outputs env r1 s1
                    else (Some r1, s1)) of
                (run2, s2) \<Rightarrow>
                  (case sleep env 1 s2 of
                     (Inl b, s3) \<Rightarrow> Some (Inl (Base b), s3)
                   | (Inr u, s3) \<Rightarrow> poll env n run2 s3)))
      else Some (Inr (), s))"

text \<open>\<^verbatim>\<open>text.split(sep)\<close> for a separator of one character; the result is never empty.\<close>

fun split_char :: "char \<Rightarrow> string \<Rightarrow> string list" where
  "split_char c [] = [[]]"
| "split_char c (x # xs) =
     (if x = c then [] # split_char c xs
      else (case split_char c xs of [] \<Rightarrow> [[x]] | y # ys \<Rightarrow> (x # y) # ys))"

text \<open>The loop over the annotations of a text block; \<^verbatim>\<open>download_links\<close> is the
  accumulator. \<^verbatim>\<open>client.files.content(file_id).read()\<close> is one outside call.\<close>

fun fetch_annotations ::
  "'w env \<Rightarrow> annotation list \<Rightarrow> (string \<times> string) list \<Rightarrow> 'w state
     \<Rightarrow> (exn + (string \<times> string) list) \<times> 'w state" where
  "fetch_annotations env [] download_links s = (Inr download_links, s)"
| "fetch_annotations env (FilePath txt file_id # anns) download_links s =
     (let file_name = last (split_char (CHR ''/'') txt)
      in case outside (FilesContent file_id) (files_content env file_id) s of
           (Inl e, s1) \<Rightarrow> (Inl e, s1)
         | (Inr file_content, s1) \<Rightarrow>
             fetch_annotations env anns (download_links @ [(file_name, file_content)]) s1)"
| "fetch_annotations env (OtherAnnotation ty # anns) download_links s =
     fetch_annotations env anns download_links s"

text \<open>The loop over the content blocks of the last message.\<close>

fun render_content ::
  "'w env \<Rightarrow> content_block list \<Rightarrow> string \<Rightarrow> (string \<times> string) list \<Rightarrow> (string \<times> string) list
     \<Rightarrow> 'w state \<Rightarrow> (exn + string \<times> (string \<times> string) list \<times> (string \<times> string) list) \<times> 'w state" where
  "render_content env [] formatted_response_text download_links images s =
     (Inr (formatted_response_text, download_links, images), s)"
| "render_content env (TextBlock v anns # blocks) formatted_response_text download_links images s =
     (case fetch_annotations env anns download_links s of
        (Inl e, s1) \<Rightarrow> (Inl e, s1)
      | (Inr download_links1, s1) \<Rightarrow>
          render_content env blocks (formatted_response_text @ v) download_links1 images s1)"
| "render_content env (ImageFileBlock file_id # blocks) formatted_response_text download_links images s =
     (case outside (FilesContent file_id) (files_content env file_id) s of
        (Inl e, s1) \<Rightarrow> (Inl e, s1)
      | (Inr image_data, s1) \<Rightarrow>
          render_content env blocks
            (formatted_response_text @ ''[Image generated: '' @ file_id @ ''.png]'' @ newline)
            download_links (images @ [(file_id @ ''.png'', image_data)]) s1)"
| "render_content env (OtherBlock ty # blocks) formatted_response_text download_links images s =
     render_content env blocks formatted_response_text download_links images s"

type_synonym agent_response = "string \<times> (string \<times> string) list \<times> (string \<times> string) list"

text \<open>The body of the \<^verbatim>\<open>try\<close> block of \<^verbatim>\<open>get_agent_response\<close>; \<^verbatim>\<open>.data[0]\<close> on an empty
  list raises.\<close>

definition get_agent_response_body ::
  "'w env \<Rightarrow> nat \<Rightarrow> string \<Rightarrow> string \<Rightarrow> 'w state \<Rightarrow> ((raised + agent_response) \<times> 'w state) option" where
  "get_agent_response_body env fuel assistant_id user_message s =
     (case outside (MessagesCreate (thread_id env) ''user'' user_message)
             (messages_create env (thread_id env) ''user'' user_message) s of
        (Inl e, s1) \<Rightarrow> Some (Inl (Exc e), s1)
      | (Inr u, s1) \<Rightarrow>
          (case outside (RunsCreate (thread_id env) assistant_id)
                  (runs_create env (thread_id env) assistant_id) s1 of
             (Inl e, s2) \<Rightarrow> Some (Inl (Exc e), s2)
           | (Inr run, s2) \<Rightarrow>
               (case poll env fuel (Some run) s2 of
                  None \<Rightarrow> None
                | Some (Inl x, s3) \<Rightarrow> Some (Inl x, s3)
                | Some (Inr u, s3) \<Rightarrow>
                    (case outside (MessagesList (thread_id env) 1)
                            (messages_list env (thread_id env) 1) s3 of
                       (Inl e, s4) \<Rightarrow> Some (Inl (Exc e), s4)
                     | (Inr [], s4) \<Rightarrow> Some (Inl (Exc (IndexError ''list index out of range'')), s4)
                     | (Inr (last_message # rest), s4) \<Rightarrow>
                         if role last_message = ''assistant'' then
                           (case render_content env (content last_message) [] [] [] s4 of
                              (Inl e, s5) \<Rightarrow> Some (Inl (Exc e), s5)
                            | (Inr r, s5) \<Rightarrow> Some (Inr r, s5))
                         else Some (Inr (''Error: No assistant response'', [], []), s4)))))"

text \<open>The \<^verbatim>\<open>except Exception\<close> clause of \<^verbatim>\<open>get_agent_response\<close>: the exception is
  displayed with its traceback and turned into an error response.\<close>

definition error_response :: "'w env \<Rightarrow> exn \<Rightarrow> 'w state \<Rightarrow> agent_response \<times> 'w state" where
  "error_response env e s =
     ((''Error: '' @ exn_str e, [], []),
      st_error (format_exc env e) (st_error (''Error in get_agent_response: '' @ exn_str e) s))"

text \<open>\<^verbatim>\<open>get_agent_response\<close>: it returns a response, or an exception that the clause does
  not catch leaves it.\<close>

definition get_agent_response ::
  "'w env \<Rightarrow> nat \<Rightarrow> string \<Rightarrow> string \<Rightarrow> 'w state \<Rightarrow> ((raised + agent_response) \<times> 'w state) option" where
  "get_agent_response env fuel assistant_id user_message s =
     (case get_agent_response_body env fuel assistant_id user_message s of
        None \<Rightarrow> None
      | Some (Inr r, s1) \<Rightarrow> Some (Inr r, s1)
      | Some (Inl (Exc e), s1) \<Rightarrow>
          (case error_response env e s1 of (r, s2) \<Rightarrow> Some (Inr r, s2))
      | Some (Inl (Base b), s1) \<Rightarrow> Some (Inl (Base b), s1))"

section \<open>Reading the record of outside calls\<close>

text \<open>The batches of tool outputs submitted to the run, in the order of submission.\<close>

fun submitted :: "event list \<Rightarrow> tool_output list list" where
  "submitted [] = []"
| "submitted (SubmitToolOutputs tid rid outs # evs) = outs # submitted evs"
| "submitted (ev # evs) = submitted evs"

text \<open>
  A request that can be dispatched: its name is in the registry and its arguments parse
  to a dictionary that unpacks into keyword arguments.
\<close>

definition dispatchable :: "'w env \<Rightarrow> tool_call \<Rightarrow> bool" where
  "dispatchable env call =
     (case available_functions env (function_name call) of
        None \<Rightarrow> False
      | Some func \<Rightarrow>
          (case json_loads env (function_arguments call) of
             Inl e \<Rightarrow> False
           | Inr arguments \<Rightarrow> (case unpack_kwargs arguments of Inl e \<Rightarrow> False | Inr kwargs \<Rightarrow> True)))"






section \<open>A scripted outside world\<close>

text \<open>
  A concrete environment for running the model: the proxy gives one fixed answer, the
  parser one fixed document, the assistant service answers the polls from a list (the
  outside state counts the polls), every file download succeeds and no await is
  cancelled. \<^verbatim>\<open>json.loads\<close> knows
  three texts and rejects every other; \<^verbatim>\<open>json.dumps\<close>, \<^verbatim>\<open>str\<close> and the traceback text
  are stand-ins.
\<close>

definition dq :: string where
  "dq = [CHR 0x22]"

definition url_arguments :: string where
  "url_arguments = ''{'' @ dq @ ''url'' @ dq @ '': '' @ dq @ ''http://example.org'' @ dq @ ''}''"

definition canned_json_loads :: "string \<Rightarrow> exn + pyvalue" where
  "canned_json_loads txt =
     (if txt = url_arguments then Inr (PDict [(''url'', PStr ''http://example.org'')])
      else if txt = ''{}'' then Inr (PDict [])
      else if txt = ''[]'' then Inr (PList [])
      else Inl (JSONDecodeError ''Expecting value: line 1 column 1 (char 0)''))"

fun canned_json_dumps :: "pyvalue \<Rightarrow> string" where
  "canned_json_dumps (PStr s) = dq @ s @ dq"
| "canned_json_dumps PNone = ''null''"
| "canned_json_dumps v = ''{...}''"

definition canned_env :: "(exn + response) \<Rightarrow> node \<Rightarrow> run list \<Rightarrow> message list \<Rightarrow> nat env" where
  "canned_env proxy_answer soup polls msgs =
     \<lparr>thread_id = ''thread_1'',
      proxy_api_key = ''key'',
      py_str = (\<lambda>v. (case v of PInt i \<Rightarrow> (if i = 404 then ''404'' else ''<int>'') | _ \<Rightarrow> ''<value>'')),
      format_exc = (\<lambda>e. ''Traceback (most recent call last): '' @ exn_str e),
      json_loads = canned_json_loads,
      json_dumps = canned_json_dumps,
      html_parser = (\<lambda>txt. soup),
      requests_get = (\<lambda>url params w. (proxy_answer, w)),
      messages_create = (\<lambda>tid r c w. (Inr (), w)),
      runs_create = (\<lambda>tid aid w.
          (Inr \<lparr>run_id = ''run_1'', status = ''queued'', required_action = None\<rparr>, w)),
      runs_retrieve = (\<lambda>tid rid w.
          (if w < length polls then Inr (polls ! w)
           else Inl (OtherException ''NotFoundError'' ''No run found''), Suc w)),
      submit_tool_outputs = (\<lambda>tid rid outs w.
          (Inr \<lparr>run_id = rid, status = ''queued'', required_action = None\<rparr>, w)),
      messages_list = (\<lambda>tid limit w. (Inr (take limit msgs), w)),
      files_content = (\<lambda>fid w. (Inr (''bytes of '' @ fid), w)),
      asyncio_sleep = (\<lambda>n w. (Inr (), w))\<rparr>"

definition start :: "nat state" where
  "start = \<lparr>world = 0, trace = []\<rparr>"

text \<open>The page of the specification's scenario and the document it parses to.\<close>

definition example_body :: string where
  "example_body =
     ''<html><body><p>Hello</p><a href='' @ dq @ ''/a'' @ dq @ ''>x</a><a href='' @ dq @ ''/a'' @ dq
       @ ''>y</a></body></html>''"

definition example_soup :: node where
  "example_soup =
     Tag ''[document]'' []
       [Tag ''html'' []
          [Tag ''body'' []
             [Tag ''p'' [] [NavigableString ''Hello''],
              Tag ''a'' [(''href'', ''/a'')] [NavigableString ''x''],
              Tag ''a'' [(''href'', ''/a'')] [NavigableString ''y'']]]]"



definition example_env :: "nat env" where
  "example_env = canned_env (Inr \<lparr>status_code = 200, response_text = example_body\<rparr>) example_soup [] []"

definition not_found_env :: "nat env" where
  "not_found_env = canned_env (Inr \<lparr>status_code = 404, response_text = ''Not Found''\<rparr>) (Comment []) [] []"




text \<open>Runs that pause: for a name the registry does not have; for a registered call
  followed by an unregistered one; for arguments that are not JSON; for a call that can be
  dispatched. Then the environments that serve them, and one whose last message has an
  annotated text block and an image block.\<close>

definition unknown_tool_run :: run where
  "unknown_tool_run =
     \<lparr>run_id = ''run_1'', status = ''requires_action'',
      required_action = Some [\<lparr>call_id = ''call_1'', function_name = ''lookup_statute'',
                               function_arguments = ''{}''\<rparr>]\<rparr>"

definition mixed_run :: run where
  "mixed_run =
     \<lparr>run_id = ''run_1'', status = ''requires_action'',
      required_action = Some [\<lparr>call_id = ''call_1'', function_name = ''scrape_content'',
                               function_arguments = url_arguments\<rparr>,
                              \<lparr>call_id = ''call_2'', function_name = ''lookup_statute'',
                               function_arguments = ''{}''\<rparr>]\<rparr>"



definition tool_env :: "run list \<Rightarrow> nat env" where
  "tool_env polls =
     canned_env (Inr \<lparr>status_code = 200, response_text = example_body\<rparr>) example_soup polls
       [\<lparr>role = ''assistant'', content = [TextBlock ''The page says Hello.'' []]\<rparr>]"









section \<open>The scraper client: properties\<close>

lemma scrape_content_200:
  assumes "requests_get env PROXY_URL (proxy_params env url) (world s) = (Inr response, w)"
    and "status_code response = 200"
  shows "scrape_content env url s =
           (Inr (PDict [(''content'', PStr (get_text (html_parser env (response_text response)) newline)),
                        (''links'', PList (map PStr (extract_links (html_parser env (response_text response)))))]),
            s\<lparr>world := w,
              trace := trace s @ [RequestsGet PROXY_URL (proxy_params env url),
                                  StSuccess (''Successfully scraped content from '' @ fstr env url)]\<rparr>)"
  using assms by (simp add: scrape_content_def outside_def st_success_def Let_def)







text \<open>
  Claim C5. For every proxy response with a status code other than 200,
  \<open>scrape_content\<close> returns \<^verbatim>\<open>None\<close> (no scrape result) and raises nothing; it makes the one
  request and displays the failure with the status code.
\<close>

theorem scrape_content_non_200:
  assumes "requests_get env PROXY_URL (proxy_params env url) (world s) = (Inr response, w)"
    and "status_code response \<noteq> 200"
  shows "scrape_content env url s =
           (Inr PNone,
            s\<lparr>world := w,
              trace := trace s @ [RequestsGet PROXY_URL (proxy_params env url),
                                  StError (''Failed to fetch the page: '' @ fstr env url @ '', status code: ''
                                           @ fstr env (PInt (status_code response)))]\<rparr>)"
  using assms by (simp add: scrape_content_def outside_def st_error_def Let_def)

theorem scrape_content_non_200_witness:
  "scrape_content not_found_env (PStr ''http://example.org'') start =
     (Inr PNone,
      \<lparr>world = 0,
       trace = [RequestsGet PROXY_URL (proxy_params not_found_env (PStr ''http://example.org'')),
                StError ''Failed to fetch the page: http://example.org, status code: 404'']\<rparr>)"
proof -
  let ?r = "\<lparr>status_code = 404, response_text = ''Not Found''\<rparr>"
  have get: "requests_get not_found_env PROXY_URL (proxy_params not_found_env (PStr ''http://example.org'')) (world start)
          = (Inr ?r, 0)"
    by (simp add: not_found_env_def canned_env_def start_def)
  have bad: "status_code ?r \<noteq> 200"
    by simp
  from scrape_content_non_200 [OF get bad] show ?thesis
    by (simp add: start_def fstr_def not_found_env_def canned_env_def)
qed

lemma get_text_example: "get_text example_soup newline = ''Hello'' @ newline @ ''x'' @ newline @ ''y''"
  by (simp add: get_text_def example_soup_def strip_def isspace1_def isspace2_def isspace3_def string_containers_def newline_def)

lemma extract_links_example: "extract_links example_soup = [''/a'']"
  by (simp add: extract_links_def example_soup_def find_all_def truthy_href_def)

text \<open>
  Claim C9. For the URL \<^verbatim>\<open>http://example.org\<close>, when the proxy answers with status 200 and
  the body of the scenario, and the HTML parser reads that body as the document it
  denotes, \<open>scrape_content\<close> returns the content \<^verbatim>\<open>Hello\<close>, \<^verbatim>\<open>x\<close>, \<^verbatim>\<open>y\<close> joined by
  line feeds and the links \<^verbatim>\<open>["/a"]\<close>.
\<close>

theorem scrape_content_scenario:
  assumes "requests_get env PROXY_URL (proxy_params env (PStr ''http://example.org'')) (world s)
             = (Inr \<lparr>status_code = 200, response_text = example_body\<rparr>, w)"
    and "html_parser env example_body = example_soup"
  shows "fst (scrape_content env (PStr ''http://example.org'') s) =
           Inr (PDict [(''content'', PStr (''Hello'' @ newline @ ''x'' @ newline @ ''y'')),
                       (''links'', PList [PStr ''/a''])])"
  using assms by (simp add: scrape_content_200 [OF assms(1)] get_text_example extract_links_example)

theorem scrape_content_scenario_witness:
  "fst (scrape_content example_env (PStr ''http://example.org'') start) =
     Inr (PDict [(''content'', PStr (''Hello'' @ newline @ ''x'' @ newline @ ''y'')),
                 (''links'', PList [PStr ''/a''])])"
proof -
  have get: "requests_get example_env PROXY_URL (proxy_params example_env (PStr ''http://example.org'')) (world start)
          = (Inr \<lparr>status_code = 200, response_text = example_body\<rparr>, 0)"
    by (simp add: example_env_def canned_env_def start_def)
  have parse: "html_parser example_env example_body = example_soup"
    by (simp add: example_env_def canned_env_def)
  from scrape_content_scenario [OF get parse] show ?thesis .
qed

section \<open>Dispatch: properties\<close>

text \<open>
  Claim C8. When the callable of a tool raises an exception, \<open>safe_tool_call\<close> catches it
  and returns the text \<^verbatim>\<open>Error occurred in <tool_name>: <message>\<close>, after displaying the
  error; the exception does not leave \<open>safe_tool_call\<close>.
\<close>

theorem safe_tool_call_catches:
  "func kwargs s = (Inl e, s1) \<Longrightarrow>
   safe_tool_call func tool_name kwargs s =
     (PStr (''Error occurred in '' @ tool_name @ '': '' @ exn_str e),
      st_error (''Error in '' @ tool_name @ '': '' @ exn_str e) s1)"
  by (simp add: safe_tool_call_def)

theorem safe_tool_call_catches_witness:
  "safe_tool_call (scrape_content_kw not_found_env) ''scrape_content'' [] start =
     (PStr (''Error occurred in scrape_content: scrape_content() missing 1 required positional argument: ''
            @ quoted ''url''),
      \<lparr>world = 0,
       trace = [StError (''Error in scrape_content: scrape_content() missing 1 required positional argument: ''
                         @ quoted ''url'')]\<rparr>)"
proof -
  have raises: "scrape_content_kw not_found_env [] start =
      (Inl (TypeError (''scrape_content() missing 1 required positional argument: '' @ quoted ''url'')), start)"
    by (simp add: scrape_content_kw_def)
  from safe_tool_call_catches [where func = "scrape_content_kw not_found_env" and tool_name = "''scrape_content''",
        OF raises]
  show ?thesis
    by (simp add: st_error_def start_def)
qed

lemma safe_tool_call_not_None: "fst (safe_tool_call func tool_name kwargs s) \<noteq> PNone"
  by (auto simp: safe_tool_call_def split: prod.splits sum.splits)

lemma resolve_tool_calls_recorded:
  "resolve_tool_calls env calls acc s = (Inr outs, s1) \<Longrightarrow>
   \<forall>out \<in> set acc. (\<exists>v. v \<noteq> PNone \<and> output_str out = json_dumps env v) \<Longrightarrow>
   \<forall>out \<in> set outs. (\<exists>v. v \<noteq> PNone \<and> output_str out = json_dumps env v)"
proof (induction calls arbitrary: acc s)
  case Nil
  then show ?case by simp
next
  case (Cons call calls)
  from Cons.prems(1) obtain func arguments kwargs where
    ok: "available_functions env (function_name call) = Some func"
      "json_loads env (function_arguments call) = Inr arguments"
      "unpack_kwargs arguments = Inr kwargs"
    by (auto split: option.splits sum.splits)
  obtain v s2 where call: "safe_tool_call func (function_name call) kwargs s = (v, s2)"
    by (cases "safe_tool_call func (function_name call) kwargs s")
  with safe_tool_call_not_None [of func "function_name call" kwargs s] have "v \<noteq> PNone"
    by simp
  then have "\<exists>v'. v' \<noteq> PNone
      \<and> output_str \<lparr>tool_call_id = call_id call, output_str = json_dumps env v\<rparr> = json_dumps env v'"
    by auto
  with Cons.prems(2) have acc:
    "\<forall>out \<in> set (acc @ [\<lparr>tool_call_id = call_id call, output_str = json_dumps env v\<rparr>]). (\<exists>v. v \<noteq> PNone \<and> output_str out = json_dumps env v)"
    by simp
  from Cons.prems(1) ok call have
    "resolve_tool_calls env calls (acc @ [\<lparr>tool_call_id = call_id call, output_str = json_dumps env v\<rparr>]) s2
       = (Inr outs, s1)"
    by simp
  from Cons.IH [OF this acc] show ?case .
qed

text \<open>
  Claim C10. When the callable of a tool returns \<^verbatim>\<open>None\<close>, \<open>safe_tool_call\<close> returns the
  string \<^verbatim>\<open>No content returned from <tool_name>\<close> in its place; whatever the callable
  does, the value \<open>safe_tool_call\<close> returns is never \<^verbatim>\<open>None\<close>; and so every output that
  the loop of \<open>handle_tool_outputs\<close> records is the serialisation of a value other than
  \<^verbatim>\<open>None\<close>.
\<close>

theorem safe_tool_call_no_content:
  "(func kwargs s = (Inr PNone, s1) \<longrightarrow>
      safe_tool_call func tool_name kwargs s = (PStr (''No content returned from '' @ tool_name), s1))
   \<and> fst (safe_tool_call func tool_name kwargs s) \<noteq> PNone
   \<and> (resolve_tool_calls env calls [] s = (Inr outs, s2) \<longrightarrow>
        (\<forall>out \<in> set outs. \<exists>v. v \<noteq> PNone \<and> output_str out = json_dumps env v))"
proof -
  have "safe_tool_call func tool_name kwargs s = (PStr (''No content returned from '' @ tool_name), s1)"
    if "func kwargs s = (Inr PNone, s1)"
    using that by (simp add: safe_tool_call_def)
  moreover have "\<forall>out \<in> set outs. \<exists>v. v \<noteq> PNone \<and> output_str out = json_dumps env v"
    if "resolve_tool_calls env calls [] s = (Inr outs, s2)"
    using resolve_tool_calls_recorded [OF that] by simp
  ultimately show ?thesis
    using safe_tool_call_not_None [of func tool_name kwargs s] by blast
qed

theorem safe_tool_call_no_content_witness:
  "safe_tool_call (scrape_content_kw not_found_env) ''scrape_content'' [(''url'', PStr ''http://example.org'')] start =
     (PStr ''No content returned from scrape_content'',
      \<lparr>world = 0,
       trace = [RequestsGet PROXY_URL (proxy_params not_found_env (PStr ''http://example.org'')),
                StError ''Failed to fetch the page: http://example.org, status code: 404'']\<rparr>)
   \<and> resolve_tool_calls not_found_env
        [\<lparr>call_id = ''call_1'', function_name = ''scrape_content'', function_arguments = url_arguments\<rparr>] [] start =
       (Inr [\<lparr>tool_call_id = ''call_1'',
              output_str = dq @ ''No content returned from scrape_content'' @ dq\<rparr>],
        \<lparr>world = 0,
         trace = [RequestsGet PROXY_URL (proxy_params not_found_env (PStr ''http://example.org'')),
                  StError ''Failed to fetch the page: http://example.org, status code: 404'']\<rparr>)
   \<and> (\<exists>v. v \<noteq> PNone
          \<and> output_str \<lparr>tool_call_id = ''call_1'',
                          output_str = dq @ ''No content returned from scrape_content'' @ dq\<rparr>
              = json_dumps not_found_env v)"
proof -
  let ?s1 = "\<lparr>world = 0::nat,
       trace = [RequestsGet PROXY_URL (proxy_params not_found_env (PStr ''http://example.org'')),
                StError ''Failed to fetch the page: http://example.org, status code: 404'']\<rparr>"
  let ?call = "\<lparr>call_id = ''call_1'', function_name = ''scrape_content'', function_arguments = url_arguments\<rparr>"
  let ?outs = "[\<lparr>tool_call_id = ''call_1'', output_str = dq @ ''No content returned from scrape_content'' @ dq\<rparr>]"
  have none: "scrape_content_kw not_found_env [(''url'', PStr ''http://example.org'')] start = (Inr PNone, ?s1)"
    by (simp add: scrape_content_kw_def scrape_content_def not_found_env_def canned_env_def start_def
          outside_def st_error_def fstr_def proxy_params_def)
  have res: "resolve_tool_calls not_found_env [?call] [] start = (Inr ?outs, ?s1)"
    by (simp add: not_found_env_def canned_env_def start_def outside_def st_error_def
          available_functions_def canned_json_loads_def unpack_kwargs_def safe_tool_call_def
          scrape_content_kw_def scrape_content_def proxy_params_def fstr_def)
  from safe_tool_call_no_content [of "scrape_content_kw not_found_env" "[(''url'', PStr ''http://example.org'')]"
        start ?s1 "''scrape_content''" not_found_env "[?call]" ?outs ?s1] none res
  show ?thesis by simp
qed

section \<open>The conversation loop: properties\<close>






















section \<open>Tool calls of a paused run: properties\<close>

lemmas run_defs = canned_env_def start_def outside_def st_error_def st_success_def sleep_def
  handle_tool_outputs_def handle_tool_outputs_body_def available_functions_def canned_json_loads_def
  url_arguments_def dq_def unpack_kwargs_def safe_tool_call_def scrape_content_kw_def scrape_content_def
  proxy_params_def fstr_def quoted_def

lemma submitted_append: "submitted (xs @ ys) = submitted xs @ submitted ys"
  by (induction xs rule: submitted.induct) simp_all

lemma scrape_content_submitted:
  "submitted (trace (snd (scrape_content env url s))) = submitted (trace s)"
  by (auto simp: scrape_content_def outside_def st_error_def st_success_def Let_def submitted_append
           split: prod.splits sum.splits exn.splits)

lemma scrape_content_kw_submitted:
  "submitted (trace (snd (scrape_content_kw env kwargs s))) = submitted (trace s)"
  by (simp add: scrape_content_kw_def scrape_content_submitted split: list.splits option.splits)

lemma safe_tool_call_submitted:
  assumes "available_functions env name = Some func"
  shows "submitted (trace (snd (safe_tool_call func tool_name kwargs s))) = submitted (trace s)"
proof -
  from assms have func: "func = scrape_content_kw env"
    by (simp add: available_functions_def split: if_splits)
  obtain r s1 where call: "func kwargs s = (r, s1)"
    by (cases "func kwargs s")
  with scrape_content_kw_submitted [of env kwargs s] func
  have "submitted (trace s1) = submitted (trace s)"
    by simp
  with call show ?thesis
    by (cases r) (simp_all add: safe_tool_call_def st_error_def submitted_append)
qed

lemma resolve_tool_calls_submitted:
  "resolve_tool_calls env calls acc s = (r, s1) \<Longrightarrow> submitted (trace s1) = submitted (trace s)"
proof (induction calls arbitrary: acc s)
  case Nil
  then show ?case by simp
next
  case (Cons call calls)
  show ?case
  proof (cases "dispatchable env call")
    case False
    with Cons.prems have "s1 = s"
      by (auto simp: dispatchable_def split: option.splits sum.splits)
    then show ?thesis by simp
  next
    case True
    then obtain func arguments kwargs where
      ok: "available_functions env (function_name call) = Some func"
        "json_loads env (function_arguments call) = Inr arguments"
        "unpack_kwargs arguments = Inr kwargs"
      by (auto simp: dispatchable_def split: option.splits sum.splits)
    obtain out s2 where call: "safe_tool_call func (function_name call) kwargs s = (out, s2)"
      by (cases "safe_tool_call func (function_name call) kwargs s")
    with safe_tool_call_submitted [OF ok(1), of "function_name call" kwargs s]
    have "submitted (trace s2) = submitted (trace s)"
      by simp
    moreover from Cons.prems ok call have
      "resolve_tool_calls env calls
         (acc @ [\<lparr>tool_call_id = call_id call, output_str = json_dumps env out\<rparr>]) s2 = (r, s1)"
      by simp
    from Cons.IH [OF this] have "submitted (trace s1) = submitted (trace s2)" .
    ultimately show ?thesis by simp
  qed
qed

lemma resolve_tool_calls_unregistered:
  assumes "call \<in> set calls" and "available_functions env (function_name call) = None"
  shows "\<exists>e s1. resolve_tool_calls env calls acc s = (Inl e, s1)"
  using assms(1)
proof (induction calls arbitrary: acc s)
  case Nil
  then show ?case by simp
next
  case (Cons c calls)
  show ?case
  proof (cases "c = call")
    case True
    with assms(2) show ?thesis by simp
  next
    case False
    with Cons.prems have "call \<in> set calls" by simp
    from Cons.IH [OF this] show ?thesis
      by (auto split: option.splits sum.splits prod.splits)
  qed
qed

text \<open>
  Claim C1, as the specification states it: for a request with a name that is not in the
  registry, dispatch produces a descriptive failure string as that call's output, so that
  the run receives an output for every requested call. The code does not do this: at the
  run below, whose one request names \<^verbatim>\<open>lookup_statute\<close>, \<open>handle_tool_outputs\<close> displays the
  error, returns \<^verbatim>\<open>None\<close> and submits nothing.
\<close>

theorem unregistered_tool_counterexample:
  "handle_tool_outputs (tool_env []) unknown_tool_run start =
     (None,
      \<lparr>world = 0,
       trace = [StError ''Error in handle_tool_outputs: Function lookup_statute not found in available_functions.'',
                StError ''Traceback (most recent call last): Function lookup_statute not found in available_functions.'']\<rparr>)
   \<and> submitted (trace (snd (handle_tool_outputs (tool_env []) unknown_tool_run start))) = []"
  by (simp add: tool_env_def unknown_tool_run_def run_defs)

text \<open>
  Claim C1, amended. For every paused run one of whose requests carries a name that is not
  in the registry, \<open>handle_tool_outputs\<close> raises nothing past its boundary: it returns
  \<^verbatim>\<open>None\<close>, submits no tool output for any request of the batch, and displays the error
  that ended the batch, with its traceback. When the unregistered request is the first of
  the batch, that error is the \<^verbatim>\<open>ValueError\<close> that names the function, and nothing else
  has happened.
\<close>

theorem handle_tool_outputs_unregistered:
  assumes "required_action run = Some calls"
    and "call \<in> set calls"
    and "available_functions env (function_name call) = None"
  shows "fst (handle_tool_outputs env run s) = None
         \<and> submitted (trace (snd (handle_tool_outputs env run s))) = submitted (trace s)
         \<and> (\<exists>e s1. snd (handle_tool_outputs env run s) =
                      st_error (format_exc env e)
                        (st_error (''Error in handle_tool_outputs: '' @ exn_str e) s1)
                    \<and> (hd calls = call \<longrightarrow>
                         e = ValueError (''Function '' @ function_name call
                                         @ '' not found in available_functions.'') \<and> s1 = s))"
proof -
  from resolve_tool_calls_unregistered [OF assms(2,3)] obtain e s1 where
    res: "resolve_tool_calls env calls [] s = (Inl e, s1)"
    by blast
  from resolve_tool_calls_submitted [OF res] have sub: "submitted (trace s1) = submitted (trace s)" .
  have result: "handle_tool_outputs env run s =
      (None, st_error (format_exc env e) (st_error (''Error in handle_tool_outputs: '' @ exn_str e) s1))"
    using assms(1) res by (simp add: handle_tool_outputs_def handle_tool_outputs_body_def)
  have first: "e = ValueError (''Function '' @ function_name call @ '' not found in available_functions.'') \<and> s1 = s"
    if "hd calls = call"
  proof -
    from assms(2) that obtain rest where "calls = call # rest"
      by (cases calls) auto
    with res assms(3) show ?thesis by simp
  qed
  from result sub first show ?thesis
    by (auto simp: st_error_def submitted_append)
qed

theorem handle_tool_outputs_unregistered_witness:
  "fst (handle_tool_outputs (tool_env []) mixed_run start) = None
   \<and> submitted (trace (snd (handle_tool_outputs (tool_env []) mixed_run start))) = []
   \<and> trace (snd (handle_tool_outputs (tool_env []) mixed_run start)) =
       [RequestsGet PROXY_URL (proxy_params (tool_env []) (PStr ''http://example.org'')),
        StSuccess ''Successfully scraped content from http://example.org'',
        StError ''Error in handle_tool_outputs: Function lookup_statute not found in available_functions.'',
        StError ''Traceback (most recent call last): Function lookup_statute not found in available_functions.'']"
proof -
  let ?c1 = "\<lparr>call_id = ''call_1'', function_name = ''scrape_content'', function_arguments = url_arguments\<rparr>"
  let ?c2 = "\<lparr>call_id = ''call_2'', function_name = ''lookup_statute'', function_arguments = ''{}''\<rparr>"
  have h1: "required_action mixed_run = Some [?c1, ?c2]"
    by (simp add: mixed_run_def)
  have h2: "?c2 \<in> set [?c1, ?c2]"
    by simp
  have h3: "available_functions (tool_env []) (function_name ?c2) = None"
    by (simp add: available_functions_def)
  have run: "trace (snd (handle_tool_outputs (tool_env []) mixed_run start)) =
       [RequestsGet PROXY_URL (proxy_params (tool_env []) (PStr ''http://example.org'')),
        StSuccess ''Successfully scraped content from http://example.org'',
        StError ''Error in handle_tool_outputs: Function lookup_statute not found in available_functions.'',
        StError ''Traceback (most recent call last): Function lookup_statute not found in available_functions.'']"
    by (simp add: tool_env_def mixed_run_def run_defs)
  from handle_tool_outputs_unregistered [OF h1 h2 h3, of start] run show ?thesis
    by (simp add: start_def)
qed














end
